theory Spec2Isabelle
  imports Complex_Main "HOL-Library.Char_ord" "HOL-Library.List_Lexorder"
begin

section \<open>Python strings\<close>

text \<open>
  Strings are byte lists. \<open>startswith\<close>, \<open>split_on\<close> and \<open>contains\<close> are
  \<^verbatim>\<open>str.startswith\<close>, \<^verbatim>\<open>str.split(sep)\<close> for a one-character separator and the
  substring test \<^verbatim>\<open>sub in s\<close>.
\<close>

definition startswith :: "string \<Rightarrow> string \<Rightarrow> bool" where
  "startswith s p = (take (length p) s = p)"

fun split_on :: "char \<Rightarrow> string \<Rightarrow> string list" where
  "split_on c [] = [[]]"
| "split_on c (x # xs) =
     (if x = c then [] # split_on c xs
      else (case split_on c xs of [] \<Rightarrow> [[x]] | w # ws \<Rightarrow> (x # w) # ws))"

fun contains :: "string \<Rightarrow> string \<Rightarrow> bool" where
  "contains sub [] = (sub = [])"
| "contains sub (c # cs) = (startswith (c # cs) sub \<or> contains sub cs)"

fun nth_opt :: "'a list \<Rightarrow> nat \<Rightarrow> 'a option" where
  "nth_opt [] n = None"
| "nth_opt (x # xs) 0 = Some x"
| "nth_opt (x # xs) (Suc n) = nth_opt xs n"

section \<open>transport/auth.py: bearer token check\<close>

record Settings =
  bearer_token :: "string option"
  mcp_protocol_version :: string

datatype auth_error = HTTPException int string | IndexError

text \<open>
  \<^verbatim>\<open>verify_bearer_token\<close>. The request is represented by what
  \<^verbatim>\<open>request.headers.get("authorization")\<close> returns. \<^verbatim>\<open>if not auth_header\<close> holds for
  a missing and for an empty header; \<^verbatim>\<open>settings.bearer_token and ...\<close> tests the
  configured token for truthiness first.
\<close>

definition verify_bearer_token :: "Settings \<Rightarrow> string option \<Rightarrow> auth_error + string" where
  "verify_bearer_token settings auth_header =
     (case auth_header of
        None \<Rightarrow> Inl (HTTPException 401 ''Authorization header required'')
      | Some h \<Rightarrow>
          if h = [] then Inl (HTTPException 401 ''Authorization header required'')
          else if \<not> startswith h ''Bearer '' then Inl (HTTPException 401 ''Bearer token required'')
          else (case nth_opt (split_on CHR '' '' h) 1 of
                  None \<Rightarrow> Inl IndexError
                | Some token \<Rightarrow>
                    (case bearer_token settings of
                       None \<Rightarrow> Inr token
                     | Some configured \<Rightarrow>
                         if configured \<noteq> [] \<and> token \<noteq> configured
                         then Inl (HTTPException 401 ''Invalid bearer token'')
                         else Inr token)))"

section \<open>adapters/retry.py: quota manager\<close>

text \<open>
  Clock readings (\<^verbatim>\<open>time.time()\<close>) and delays are Python floats; they are modelled as
  reals, the clock reading being a parameter of each operation that reads it.
\<close>

record QuotaManager =
  quota_exceeded_until :: "real option"
  request_count :: int
  quota_reset_time :: real

definition QuotaManager_init :: QuotaManager where
  "QuotaManager_init = \<lparr>quota_exceeded_until = None, request_count = 0, quota_reset_time = 0\<rparr>"

definition check_quota :: "real \<Rightarrow> QuotaManager \<Rightarrow> bool" where
  "check_quota current_time q =
     (case quota_exceeded_until q of
        None \<Rightarrow> True
      | Some until \<Rightarrow> if until \<noteq> 0 \<and> current_time < until then False else True)"

definition handle_quota_exceeded :: "real \<Rightarrow> int option \<Rightarrow> QuotaManager \<Rightarrow> QuotaManager" where
  "handle_quota_exceeded now retry_after q =
     (case retry_after of
        None \<Rightarrow> q\<lparr>quota_exceeded_until := Some (now + 60)\<rparr>
      | Some r \<Rightarrow>
          if r \<noteq> 0 then q\<lparr>quota_exceeded_until := Some (now + real_of_int r)\<rparr>
          else q\<lparr>quota_exceeded_until := Some (now + 60)\<rparr>)"

section \<open>adapters/retry.py: exponential backoff\<close>

record RetryConfig =
  max_retries :: int
  base_delay :: real
  max_delay :: real
  exponential_base :: real
  jitter :: bool

definition RetryConfig_default :: RetryConfig where
  "RetryConfig_default =
     \<lparr>max_retries = 3, base_delay = 1, max_delay = 60, exponential_base = 2, jitter = True\<rparr>"

text \<open>
  An \<^verbatim>\<open>HttpError\<close> is represented by the two things the engine reads from it:
  \<^verbatim>\<open>e.resp.status\<close> and \<^verbatim>\<open>e.resp.get('retry-after')\<close>.
\<close>

record HttpError =
  status :: int
  retry_after :: "string option"

datatype 'a outcome = Returns 'a | RaisesHttp HttpError | RaisesOther string

datatype exn = EHttp HttpError | EOther string | ETypeError | EOverflowError

text \<open>
  \<^verbatim>\<open>int(s)\<close> on an ASCII string: surrounding whitespace (space, tab, line feed,
  vertical tab, form feed, carriage return) is stripped, one sign is allowed, then
  decimal digits, single underscores allowed between digits, and at most 4300 digits
  (the interpreter's default limit for converting a string to an integer). Anything else
  is a \<^verbatim>\<open>ValueError\<close> (\<open>None\<close>).
\<close>

definition is_space :: "char \<Rightarrow> bool" where
  "is_space c = (c \<in> set [CHR '' '', CHR 0x09, CHR 0x0A, CHR 0x0B, CHR 0x0C, CHR 0x0D])"

definition is_digit :: "char \<Rightarrow> bool" where
  "is_digit c = (48 \<le> (of_char c :: nat) \<and> (of_char c :: nat) \<le> 57)"

definition digit_val :: "char \<Rightarrow> int" where
  "digit_val c = int (of_char c) - 48"

definition strip :: "string \<Rightarrow> string" where
  "strip s = rev (dropWhile is_space (rev (dropWhile is_space s)))"

fun parse_digits :: "int \<Rightarrow> bool \<Rightarrow> string \<Rightarrow> int option" where
  "parse_digits acc after_digit [] = (if after_digit then Some acc else None)"
| "parse_digits acc after_digit (c # cs) =
     (if is_digit c then parse_digits (acc * 10 + digit_val c) True cs
      else if c = CHR ''_'' \<and> after_digit then parse_digits acc False cs
      else None)"

definition max_str_digits :: nat where
  "max_str_digits = 4300"

definition py_int :: "string \<Rightarrow> int option" where
  "py_int s =
     (if length (filter is_digit s) > max_str_digits then None
      else case strip s of
        [] \<Rightarrow> None
      | c # cs \<Rightarrow>
          if c = CHR ''-'' then map_option uminus (parse_digits 0 False cs)
          else if c = CHR ''+'' then parse_digits 0 False cs
          else parse_digits 0 False (c # cs))"

text \<open>
  The computed delay: \<^verbatim>\<open>min(base_delay * exponential_base ** attempt, max_delay)\<close>,
  scaled by \<^verbatim>\<open>0.5 + random.random() * 0.5\<close> when jitter is on. \<open>r\<close> is the value
  \<^verbatim>\<open>random.random()\<close> returns.
\<close>

definition backoff_delay :: "RetryConfig \<Rightarrow> nat \<Rightarrow> real \<Rightarrow> real" where
  "backoff_delay config attempt r =
     (let delay = min (base_delay config * exponential_base config ^ attempt) (max_delay config)
      in if jitter config then delay * (0.5 + r * 0.5) else delay)"

text \<open>
  The delay for a 429/5xx failure, as computed and logged before the sleep. The
  Retry-After header is honoured: \<^verbatim>\<open>max(delay, retry_after_seconds)\<close> is the integer when
  that is the greater. The log line formats the delay with \<^verbatim>\<open>:.2f\<close>, which converts an
  integer to a float and raises \<^verbatim>\<open>OverflowError\<close> when it is beyond the float range, that
  is from \<open>2 ^ 1024 - 2 ^ 970\<close> on; the error leaves the engine before any sleep.
\<close>

definition float_limit :: int where
  "float_limit = 2 ^ 1024 - 2 ^ 970"

definition retry_delay :: "RetryConfig \<Rightarrow> nat \<Rightarrow> real \<Rightarrow> HttpError \<Rightarrow> exn + real" where
  "retry_delay config attempt r e =
     (let delay = backoff_delay config attempt r
      in case retry_after e of
           None \<Rightarrow> Inr delay
         | Some h \<Rightarrow>
             if h = [] then Inr delay
             else (case py_int h of
                     Some retry_after_seconds \<Rightarrow>
                       if delay < real_of_int retry_after_seconds
                       then (if float_limit \<le> retry_after_seconds then Inl EOverflowError
                             else Inr (real_of_int retry_after_seconds))
                       else Inr delay
                   | None \<Rightarrow> Inr delay))"

datatype 'a step = Return 'a | Raise exn | Sleep real

text \<open>One iteration of the \<^verbatim>\<open>for attempt in range(max_retries + 1)\<close> loop.\<close>

definition on_attempt :: "RetryConfig \<Rightarrow> nat \<Rightarrow> real \<Rightarrow> 'a outcome \<Rightarrow> 'a step" where
  "on_attempt config attempt r out =
     (case out of
        Returns result \<Rightarrow> Return result
      | RaisesHttp e \<Rightarrow>
          if status e \<in> set [400, 401, 403, 404] then Raise (EHttp e)
          else if status e \<in> set [429, 500, 502, 503, 504] then
            (if int attempt \<ge> max_retries config then Raise (EHttp e)
             else (case retry_delay config attempt r e of
                     Inl err \<Rightarrow> Raise err
                   | Inr delay \<Rightarrow> Sleep delay))
          else Raise (EHttp e)
      | RaisesOther m \<Rightarrow>
          if int attempt \<ge> max_retries config then Raise (EOther m)
          else Sleep (backoff_delay config attempt r))"

definition raised :: "'a outcome \<Rightarrow> exn option" where
  "raised out = (case out of Returns _ \<Rightarrow> None | RaisesHttp e \<Rightarrow> Some (EHttp e) | RaisesOther m \<Rightarrow> Some (EOther m))"

text \<open>
  The loop. \<open>func k\<close> is what the \<open>k\<close>-th invocation of the callable does and
  \<open>rnd k\<close> the random number drawn in iteration \<open>k\<close>. The result is what the engine
  returns or raises, the number of invocations of the callable, and the sleeps in
  order. When the range is exhausted the engine executes \<^verbatim>\<open>raise last_exception\<close>,
  a \<^verbatim>\<open>TypeError\<close> when that is still \<^verbatim>\<open>None\<close>.
\<close>

fun retry_loop ::
  "RetryConfig \<Rightarrow> (nat \<Rightarrow> 'a outcome) \<Rightarrow> (nat \<Rightarrow> real) \<Rightarrow> nat \<Rightarrow> nat \<Rightarrow> exn option
     \<Rightarrow> (exn + 'a) \<times> nat \<times> real list" where
  "retry_loop config func rnd attempt 0 last_exception =
     (Inl (case last_exception of None \<Rightarrow> ETypeError | Some e \<Rightarrow> e), 0, [])"
| "retry_loop config func rnd attempt (Suc remaining) last_exception =
     (case on_attempt config attempt (rnd attempt) (func attempt) of
        Return result \<Rightarrow> (Inr result, 1, [])
      | Raise e \<Rightarrow> (Inl e, 1, [])
      | Sleep delay \<Rightarrow>
          (case retry_loop config func rnd (Suc attempt) remaining (raised (func attempt)) of
             (res, n, sleeps) \<Rightarrow> (res, Suc n, delay # sleeps)))"

definition exponential_backoff_retry ::
  "(nat \<Rightarrow> 'a outcome) \<Rightarrow> RetryConfig option \<Rightarrow> (nat \<Rightarrow> real) \<Rightarrow> (exn + 'a) \<times> nat \<times> real list" where
  "exponential_backoff_retry func config rnd =
     (let config = (case config of None \<Rightarrow> RetryConfig_default | Some c \<Rightarrow> c)
      in retry_loop config func rnd 0 (nat (max_retries config + 1)) None)"

section \<open>Python values and JSON\<close>

text \<open>
  The values that travel through the router: JSON data plus \<^verbatim>\<open>datetime\<close> objects.
  A float is represented by its \<^verbatim>\<open>repr\<close>, a datetime by its \<^verbatim>\<open>isoformat()\<close>. A
  \<^verbatim>\<open>dict\<close> is the list of its items in insertion order; \<open>wf_py\<close> says that the keys of
  every dict are distinct, as they are in any Python dict.
\<close>

datatype pyval =
    PNone
  | PBool bool
  | PInt int
  | PFloat string
  | PStr string
  | PDatetime string
  | PList "pyval list"
  | PDict "(string \<times> pyval) list"

fun nat_to_str :: "nat \<Rightarrow> string" where
  "nat_to_str n = (if n < 10 then [char_of (48 + n)] else nat_to_str (n div 10) @ [char_of (48 + n mod 10)])"

declare nat_to_str.simps [simp del]

definition int_to_str :: "int \<Rightarrow> string" where
  "int_to_str i = (if i < 0 then CHR ''-'' # nat_to_str (nat (- i)) else nat_to_str (nat i))"

definition hex_digit :: "nat \<Rightarrow> char" where
  "hex_digit n = (if n < 10 then char_of (48 + n) else char_of (87 + n))"

definition escape_char :: "char \<Rightarrow> string" where
  "escape_char c =
     (if c = CHR 0x22 then [CHR 0x5C, CHR 0x22]
      else if c = CHR 0x5C then [CHR 0x5C, CHR 0x5C]
      else if c = CHR 0x0A then [CHR 0x5C, CHR ''n'']
      else if c = CHR 0x0D then [CHR 0x5C, CHR ''r'']
      else if c = CHR 0x09 then [CHR 0x5C, CHR ''t'']
      else if c = CHR 0x08 then [CHR 0x5C, CHR ''b'']
      else if c = CHR 0x0C then [CHR 0x5C, CHR ''f'']
      else if (of_char c :: nat) < 32 \<or> (of_char c :: nat) = 127
        then [CHR 0x5C, CHR ''u'', CHR ''0'', CHR ''0'', hex_digit (of_char c div 16), hex_digit (of_char c mod 16)]
      else [c])"

definition quote :: "string \<Rightarrow> string" where
  "quote s = [CHR 0x22] @ concat (map escape_char s) @ [CHR 0x22]"

fun join :: "string \<Rightarrow> string list \<Rightarrow> string" where
  "join sep [] = []"
| "join sep [x] = x"
| "join sep (x # y # ys) = x @ sep @ join sep (y # ys)"

text \<open>\<^verbatim>\<open>str(d)\<close> of a datetime is its ISO form with a space for the \<^verbatim>\<open>T\<close>.\<close>

definition datetime_str :: "string \<Rightarrow> string" where
  "datetime_str d = map (\<lambda>c. if c = CHR ''T'' then CHR '' '' else c) d"

text \<open>
  \<^verbatim>\<open>json.dumps(v, sort_keys=..., default=str)\<close> with the default separators: with
  \<open>sort_keys\<close> the items of every dict are written in the order of their keys. Bytes
  outside ASCII are written through unescaped.
\<close>

function (sequential) dumps :: "bool \<Rightarrow> pyval \<Rightarrow> string" where
  "dumps sort_keys PNone = ''null''"
| "dumps sort_keys (PBool b) = (if b then ''true'' else ''false'')"
| "dumps sort_keys (PInt i) = int_to_str i"
| "dumps sort_keys (PFloat r) = r"
| "dumps sort_keys (PStr s) = quote s"
| "dumps sort_keys (PDatetime d) = quote (datetime_str d)"
| "dumps sort_keys (PList xs) = ''['' @ join '', '' (map (dumps sort_keys) xs) @ '']''"
| "dumps sort_keys (PDict items) =
     ''{'' @ join '', ''
        (map (\<lambda>(k, v). quote k @ '': '' @ dumps sort_keys v)
           (if sort_keys then sort_key fst items else items)) @ ''}''"
  by pat_completeness auto
termination
proof (relation "measure (\<lambda>(sk, v). size v)", goal_cases)
  case 1 show ?case by simp
next
  case (2 sk xs x)
  then show ?case by (induction xs) auto
next
  case (3 sk items kv k v)
  then have "(k, v) \<in> set items" by (auto split: if_splits)
  then show ?case by (induction items) auto
qed


fun wf_py :: "pyval \<Rightarrow> bool" where
  "wf_py (PList xs) = list_all wf_py xs"
| "wf_py (PDict items) = (distinct (map fst items) \<and> list_all (\<lambda>(k, v). wf_py v) items)"
| "wf_py v = True"

text \<open>
  \<open>same_mapping a b\<close>: \<open>a\<close> and \<open>b\<close> are the same value up to the order in which
  dicts enumerate their keys, at any depth. Lists are compared in order.
\<close>

fun same_mapping :: "pyval \<Rightarrow> pyval \<Rightarrow> bool" where
  "same_mapping (PList xs) b =
     (case b of PList ys \<Rightarrow> list_all2 same_mapping xs ys | _ \<Rightarrow> False)"
| "same_mapping (PDict xs) b =
     (case b of
        PDict ys \<Rightarrow>
          length xs = length ys \<and>
          list_all (\<lambda>(k, v). case map_of ys k of None \<Rightarrow> False | Some v' \<Rightarrow> same_mapping v v') xs
      | _ \<Rightarrow> False)"
| "same_mapping a b = (a = b)"

text \<open>
  \<^verbatim>\<open>IdempotencyCache.generate_key\<close>. The digest \<^verbatim>\<open>hashlib.sha256(...).hexdigest()\<close> is a
  parameter.
\<close>

definition generate_key :: "(string \<Rightarrow> string) \<Rightarrow> string \<Rightarrow> pyval \<Rightarrow> string option \<Rightarrow> string" where
  "generate_key sha256_hexdigest tool_name arguments user_id =
     (let key_data = PDict [(''tool'', PStr tool_name), (''args'', arguments),
                            (''user'', (case user_id of None \<Rightarrow> PNone | Some u \<Rightarrow> PStr u))];
          key_json = dumps True key_data;
          key_hash = sha256_hexdigest key_json
      in ''mcp:idempotency:'' @ key_hash)"



type_synonym pydict = "(string \<times> pyval) list"

fun truthy :: "pyval \<Rightarrow> bool" where
  "truthy PNone = False"
| "truthy (PBool b) = b"
| "truthy (PInt i) = (i \<noteq> 0)"
| "truthy (PFloat r) = (r \<noteq> ''0.0'' \<and> r \<noteq> ''-0.0'')"
| "truthy (PStr s) = (s \<noteq> [])"
| "truthy (PDatetime d) = True"
| "truthy (PList xs) = (xs \<noteq> [])"
| "truthy (PDict items) = (items \<noteq> [])"

definition dict_get :: "pydict \<Rightarrow> string \<Rightarrow> pyval" where
  "dict_get d k = (case map_of d k of None \<Rightarrow> PNone | Some v \<Rightarrow> v)"

definition dict_get_default :: "pydict \<Rightarrow> string \<Rightarrow> pyval \<Rightarrow> pyval" where
  "dict_get_default d k dflt = (case map_of d k of None \<Rightarrow> dflt | Some v \<Rightarrow> v)"

fun dict_set :: "string \<Rightarrow> 'v \<Rightarrow> (string \<times> 'v) list \<Rightarrow> (string \<times> 'v) list" where
  "dict_set k v [] = [(k, v)]"
| "dict_set k v ((k', v') # d) = (if k' = k then (k, v) # d else (k', v') # dict_set k v d)"

section \<open>services/audit.py: sanitising audit records\<close>

text \<open>
  \<^verbatim>\<open>_sanitize_state\<close> and \<^verbatim>\<open>_sanitize_arguments\<close> have the same body: a falsy
  argument (\<^verbatim>\<open>None\<close> or the empty dict) gives \<^verbatim>\<open>None\<close>; otherwise the top-level dict is
  copied and, for each sensitive word and each key of the copy, the value is overwritten
  when the lower-cased key contains the word. \<open>lower\<close> is \<^verbatim>\<open>str.lower\<close> on ASCII.
\<close>

definition lower_char :: "char \<Rightarrow> char" where
  "lower_char c =
     (if 65 \<le> (of_char c :: nat) \<and> (of_char c :: nat) \<le> 90 then char_of ((of_char c :: nat) + 32) else c)"

definition lower :: "string \<Rightarrow> string" where
  "lower s = map lower_char s"

definition sensitive_fields :: "string list" where
  "sensitive_fields = [''password'', ''token'', ''secret'', ''key'', ''credential'']"

definition REDACTED :: pyval where
  "REDACTED = PStr ''***REDACTED***''"

definition redact_field :: "string \<Rightarrow> pydict \<Rightarrow> pydict" where
  "redact_field field sanitized =
     fold (\<lambda>key s. if contains (lower field) (lower key) then dict_set key REDACTED s else s)
       (map fst sanitized) sanitized"

definition sanitize_state :: "pydict option \<Rightarrow> pydict option" where
  "sanitize_state state =
     (case state of
        None \<Rightarrow> None
      | Some d \<Rightarrow> if d = [] then None else Some (fold redact_field sensitive_fields d))"

definition sanitize_arguments :: "pydict option \<Rightarrow> pydict option" where
  "sanitize_arguments arguments =
     (case arguments of
        None \<Rightarrow> None
      | Some d \<Rightarrow> if d = [] then None else Some (fold redact_field sensitive_fields d))"

text \<open>A key is sensitive when its lower-cased name contains one of the words.\<close>

definition is_sensitive :: "string \<Rightarrow> bool" where
  "is_sensitive key = list_ex (\<lambda>field. contains (lower field) (lower key)) sensitive_fields"

section \<open>tools/schemas.py: the pydantic models\<close>

text \<open>
  A pydantic model is the list of its fields in declaration order. Constructing an
  instance from keyword arguments (\<open>validate_model\<close>) visits the fields in that order:
  a field that is not supplied takes its default without any validator being run (no
  validator here sets \<^verbatim>\<open>always=True\<close>), or is an error when it has none; a supplied value
  is checked against the field's type and then passed to the field's validators together
  with \<open>values\<close>, the fields validated so far. Errors are collected over all fields.
  An instance is represented by the dict of all its fields, which is what
  \<^verbatim>\<open>.dict()\<close> returns; an enum member is represented by its value.

  Type checks follow the declared types on decoded JSON: a \<^verbatim>\<open>str\<close> field takes a string,
  a \<^verbatim>\<open>Dict\<close> a dict, a \<^verbatim>\<open>List\<close> a list, an enum one of its values. Parsing of
  date-time and boolean literals by the library is not modelled: a value the library
  reads as a datetime is given as \<open>PDatetime\<close>, one it reads as a boolean as
  \<open>PBool\<close>.
\<close>

record field_spec =
  field_name :: string
  field_default :: "pyval option"
  field_type :: "pyval \<Rightarrow> string + pyval"
  field_validators :: "(pyval \<Rightarrow> pydict \<Rightarrow> string + pyval) list"

fun run_validators :: "(pyval \<Rightarrow> pydict \<Rightarrow> string + pyval) list \<Rightarrow> pyval \<Rightarrow> pydict \<Rightarrow> string + pyval" where
  "run_validators [] v values = Inr v"
| "run_validators (f # fs) v values =
     (case f v values of Inl msg \<Rightarrow> Inl msg | Inr v' \<Rightarrow> run_validators fs v' values)"

fun validate_model ::
  "field_spec list \<Rightarrow> pydict \<Rightarrow> pydict \<Rightarrow> (string \<times> string) list \<Rightarrow> (string \<times> string) list + pydict" where
  "validate_model [] input values errors = (if errors = [] then Inr values else Inl errors)"
| "validate_model (f # fs) input values errors =
     (case map_of input (field_name f) of
        None \<Rightarrow>
          (case field_default f of
             None \<Rightarrow> validate_model fs input values (errors @ [(field_name f, ''Field required'')])
           | Some d \<Rightarrow> validate_model fs input (values @ [(field_name f, d)]) errors)
      | Some v \<Rightarrow>
          (case field_type f v of
             Inl msg \<Rightarrow> validate_model fs input values (errors @ [(field_name f, msg)])
           | Inr v' \<Rightarrow>
               (case run_validators (field_validators f) v' values of
                  Inl msg \<Rightarrow> validate_model fs input values (errors @ [(field_name f, msg)])
                | Inr v'' \<Rightarrow> validate_model fs input (values @ [(field_name f, v'')]) errors)))"

definition t_str :: "pyval \<Rightarrow> string + pyval" where
  "t_str v = (case v of PStr s \<Rightarrow> Inr (PStr s) | _ \<Rightarrow> Inl ''Input should be a valid string'')"

definition t_datetime :: "pyval \<Rightarrow> string + pyval" where
  "t_datetime v = (case v of PDatetime d \<Rightarrow> Inr (PDatetime d) | _ \<Rightarrow> Inl ''Input should be a valid datetime'')"

definition t_bool :: "pyval \<Rightarrow> string + pyval" where
  "t_bool v = (case v of PBool b \<Rightarrow> Inr (PBool b) | _ \<Rightarrow> Inl ''Input should be a valid boolean'')"

definition t_enum :: "string list \<Rightarrow> pyval \<Rightarrow> string + pyval" where
  "t_enum members v =
     (case v of
        PStr s \<Rightarrow> if s \<in> set members then Inr (PStr s) else Inl ''Input should be a member of the enumeration''
      | _ \<Rightarrow> Inl ''Input should be a member of the enumeration'')"

definition t_optional :: "(pyval \<Rightarrow> string + pyval) \<Rightarrow> pyval \<Rightarrow> string + pyval" where
  "t_optional t v = (case v of PNone \<Rightarrow> Inr PNone | _ \<Rightarrow> t v)"

fun all_items :: "(pyval \<Rightarrow> string + pyval) \<Rightarrow> pyval list \<Rightarrow> string + pyval list" where
  "all_items t [] = Inr []"
| "all_items t (x # xs) =
     (case t x of
        Inl msg \<Rightarrow> Inl msg
      | Inr x' \<Rightarrow> (case all_items t xs of Inl msg \<Rightarrow> Inl msg | Inr xs' \<Rightarrow> Inr (x' # xs')))"

definition t_list :: "(pyval \<Rightarrow> string + pyval) \<Rightarrow> pyval \<Rightarrow> string + pyval" where
  "t_list t v =
     (case v of
        PList xs \<Rightarrow> (case all_items t xs of Inl msg \<Rightarrow> Inl msg | Inr xs' \<Rightarrow> Inr (PList xs'))
      | _ \<Rightarrow> Inl ''Input should be a valid list'')"

definition t_dict_any :: "pyval \<Rightarrow> string + pyval" where
  "t_dict_any v = (case v of PDict d \<Rightarrow> Inr (PDict d) | _ \<Rightarrow> Inl ''Input should be a valid dictionary'')"

definition t_dict_str :: "pyval \<Rightarrow> string + pyval" where
  "t_dict_str v =
     (case v of
        PDict d \<Rightarrow>
          (case all_items t_str (map snd d) of
             Inl msg \<Rightarrow> Inl msg
           | Inr _ \<Rightarrow> Inr (PDict d))
      | _ \<Rightarrow> Inl ''Input should be a valid dictionary'')"

definition t_model :: "field_spec list \<Rightarrow> pyval \<Rightarrow> string + pyval" where
  "t_model spec v =
     (case v of
        PDict d \<Rightarrow>
          (case validate_model spec d [] [] of
             Inl errors \<Rightarrow> Inl (case errors of [] \<Rightarrow> [] | (loc, msg) # _ \<Rightarrow> loc @ '': '' @ msg)
           | Inr values \<Rightarrow> Inr (PDict values))
      | _ \<Rightarrow> Inl ''Input should be a valid dictionary or instance'')"

definition EventVisibility :: "string list" where
  "EventVisibility = [''default'', ''public'', ''private'']"

definition EventStatus :: "string list" where
  "EventStatus = [''tentative'', ''confirmed'', ''cancelled'']"

definition AttendeeStatus :: "string list" where
  "AttendeeStatus = [''needsAction'', ''declined'', ''tentative'', ''accepted'']"

definition required :: "string \<Rightarrow> (pyval \<Rightarrow> string + pyval) \<Rightarrow> field_spec" where
  "required name t = \<lparr>field_name = name, field_default = None, field_type = t, field_validators = []\<rparr>"

definition optional :: "string \<Rightarrow> (pyval \<Rightarrow> string + pyval) \<Rightarrow> pyval \<Rightarrow> field_spec" where
  "optional name t dflt =
     \<lparr>field_name = name, field_default = Some dflt, field_type = t_optional t, field_validators = []\<rparr>"

definition Attendee :: "field_spec list" where
  "Attendee =
     [required ''email'' t_str,
      optional ''displayName'' t_str PNone,
      optional ''optional'' t_bool (PBool False),
      optional ''responseStatus'' (t_enum AttendeeStatus) (PStr ''needsAction''),
      optional ''comment'' t_str PNone]"

text \<open>
  The validator registered for \<^verbatim>\<open>dateTime\<close> and \<^verbatim>\<open>date\<close>. In both runs it looks up
  \<^verbatim>\<open>values.get('date')\<close>.
\<close>

definition validate_datetime_or_date :: "pyval \<Rightarrow> pydict \<Rightarrow> string + pyval" where
  "validate_datetime_or_date v values =
     (if v = PNone \<and> \<not> truthy (dict_get values ''date'')
        then Inl ''Either dateTime or date must be provided''
      else if v \<noteq> PNone \<and> truthy (dict_get values ''date'')
        then Inl ''Cannot specify both dateTime and date''
      else Inr v)"

definition EventDateTime :: "field_spec list" where
  "EventDateTime =
     [(optional ''dateTime'' t_datetime PNone)\<lparr>field_validators := [validate_datetime_or_date]\<rparr>,
      (optional ''date'' t_str PNone)\<lparr>field_validators := [validate_datetime_or_date]\<rparr>,
      optional ''timeZone'' t_str PNone]"

definition Recurrence :: "field_spec list" where
  "Recurrence =
     [required ''rrule'' (t_list t_str),
      optional ''exdate'' (t_list t_str) PNone,
      optional ''rdate'' (t_list t_str) PNone]"

definition CreateEventSchema :: "field_spec list" where
  "CreateEventSchema =
     [required ''calendarId'' t_str,
      required ''summary'' t_str,
      optional ''description'' t_str PNone,
      required ''start'' (t_model EventDateTime),
      required ''end'' (t_model EventDateTime),
      optional ''location'' t_str PNone,
      optional ''attendees'' (t_list (t_model Attendee)) PNone,
      optional ''visibility'' (t_enum EventVisibility) (PStr ''default''),
      optional ''status'' (t_enum EventStatus) (PStr ''confirmed''),
      optional ''recurrence'' (t_model Recurrence) PNone,
      optional ''reminders'' t_dict_any PNone,
      optional ''conferenceData'' t_dict_any PNone]"

definition UpdateEventSchema :: "field_spec list" where
  "UpdateEventSchema =
     [required ''calendarId'' t_str,
      required ''eventId'' t_str,
      optional ''summary'' t_str PNone,
      optional ''description'' t_str PNone,
      optional ''start'' (t_model EventDateTime) PNone,
      optional ''end'' (t_model EventDateTime) PNone,
      optional ''location'' t_str PNone,
      optional ''attendees'' (t_list (t_model Attendee)) PNone,
      optional ''visibility'' (t_enum EventVisibility) PNone,
      optional ''status'' (t_enum EventStatus) PNone,
      optional ''recurrence'' (t_model Recurrence) PNone,
      optional ''reminders'' t_dict_any PNone,
      optional ''conferenceData'' t_dict_any PNone]"

definition DeleteEventSchema :: "field_spec list" where
  "DeleteEventSchema =
     [required ''calendarId'' t_str,
      required ''eventId'' t_str,
      optional ''sendUpdates'' t_str (PStr ''all'')]"

definition validate_items :: "pyval \<Rightarrow> pydict \<Rightarrow> string + pyval" where
  "validate_items v values =
     (if \<not> truthy v then Inl ''At least one calendar must be specified''
      else (case v of
              PList items \<Rightarrow>
                if list_all (\<lambda>item. case item of PDict d \<Rightarrow> map_of d ''id'' \<noteq> None | _ \<Rightarrow> False) items
                then Inr v
                else Inl ''Each item must be a dict with an \"id\" key''
            | _ \<Rightarrow> Inr v))"

definition FreeBusyQuerySchema :: "field_spec list" where
  "FreeBusyQuerySchema =
     [required ''timeMin'' t_datetime,
      required ''timeMax'' t_datetime,
      optional ''timeZone'' t_str PNone,
      (required ''items'' (t_list t_dict_str))\<lparr>field_validators := [validate_items]\<rparr>]"

section \<open>tools/validators.py\<close>

datatype ValidationException = ValidationException string "(string \<times> string) list"

definition SCHEMA_MAP :: "(string \<times> field_spec list) list" where
  "SCHEMA_MAP =
     [(''create_event'', CreateEventSchema),
      (''update_event'', UpdateEventSchema),
      (''delete_event'', DeleteEventSchema),
      (''freebusy_query'', FreeBusyQuerySchema)]"

definition validate_tool_args :: "string \<Rightarrow> pydict \<Rightarrow> ValidationException + pydict" where
  "validate_tool_args tool_name arguments =
     (case map_of SCHEMA_MAP tool_name of
        None \<Rightarrow> Inl (ValidationException (''Unknown tool: '' @ tool_name) [])
      | Some schema_class \<Rightarrow>
          (case validate_model schema_class arguments [] [] of
             Inl error_details \<Rightarrow>
               Inl (ValidationException (''Validation failed for tool '' @ [CHR 0x27] @ tool_name @ [CHR 0x27]) error_details)
           | Inr validated_args \<Rightarrow> Inr validated_args))"

definition create_error_response :: "string \<Rightarrow> string option \<Rightarrow> pyval" where
  "create_error_response message error =
     PDict [(''success'', PBool False), (''message'', PStr message), (''data'', PNone),
            (''error'', (case error of None \<Rightarrow> PNone | Some e \<Rightarrow> PStr e))]"

definition create_success_response :: "string \<Rightarrow> pyval \<Rightarrow> pyval" where
  "create_success_response message data =
     PDict [(''success'', PBool True), (''message'', PStr message), (''data'', data), (''error'', PNone)]"

section \<open>adapters/calendar.py: request bodies\<close>

text \<open>
  \<^verbatim>\<open>_build_update_body\<close> and \<^verbatim>\<open>_convert_datetime\<close>, with the exceptions Python raises
  when a value has the wrong shape: \<^verbatim>\<open>.get\<close> or \<^verbatim>\<open>.extend\<close> on a value without that
  method is an \<^verbatim>\<open>AttributeError\<close>, iterating or subscripting a value that does not
  support it a \<^verbatim>\<open>TypeError\<close>, a missing key a \<^verbatim>\<open>KeyError\<close>. \<open>py_str\<close> is the
  formatting of a value inside an f-string; the formatting of a list or dict is left out
  (\<open>NotModelled\<close>), exception dates being strings.
\<close>

datatype py_error = AttributeError | TypeError | KeyError string | NotModelled

definition bind_err :: "py_error + 'a \<Rightarrow> ('a \<Rightarrow> py_error + 'b) \<Rightarrow> py_error + 'b" where
  "bind_err m f = (case m of Inl e \<Rightarrow> Inl e | Inr x \<Rightarrow> f x)"

fun map_err :: "('a \<Rightarrow> py_error + 'b) \<Rightarrow> 'a list \<Rightarrow> py_error + 'b list" where
  "map_err f [] = Inr []"
| "map_err f (x # xs) =
     (case f x of
        Inl e \<Rightarrow> Inl e
      | Inr y \<Rightarrow> (case map_err f xs of Inl e \<Rightarrow> Inl e | Inr ys \<Rightarrow> Inr (y # ys)))"

definition py_iter :: "pyval \<Rightarrow> py_error + pyval list" where
  "py_iter v =
     (case v of
        PList xs \<Rightarrow> Inr xs
      | PDict d \<Rightarrow> Inr (map (\<lambda>(k, _). PStr k) d)
      | PStr s \<Rightarrow> Inr (map (\<lambda>c. PStr [c]) s)
      | _ \<Rightarrow> Inl TypeError)"

definition py_str :: "pyval \<Rightarrow> py_error + string" where
  "py_str v =
     (case v of
        PNone \<Rightarrow> Inr ''None''
      | PBool b \<Rightarrow> Inr (if b then ''True'' else ''False'')
      | PInt i \<Rightarrow> Inr (int_to_str i)
      | PFloat r \<Rightarrow> Inr r
      | PStr s \<Rightarrow> Inr s
      | PDatetime d \<Rightarrow> Inr (datetime_str d)
      | _ \<Rightarrow> Inl NotModelled)"

definition convert_datetime :: "pyval \<Rightarrow> py_error + pyval" where
  "convert_datetime dt_obj =
     (case dt_obj of
        PDict d \<Rightarrow>
          if truthy (dict_get d ''dateTime'') then
            (let dt = dict_get d ''dateTime'';
                 result = [(''dateTime'', (case dt of PDatetime isoformat \<Rightarrow> PStr isoformat | _ \<Rightarrow> dt))]
             in if truthy (dict_get d ''timeZone'')
                then Inr (PDict (result @ [(''timeZone'', dict_get d ''timeZone'')]))
                else Inr (PDict result))
          else if truthy (dict_get d ''date'') then Inr (PDict [(''date'', dict_get d ''date'')])
          else Inr (PDict [])
      | _ \<Rightarrow> Inl AttributeError)"

definition convert_attendee :: "pyval \<Rightarrow> py_error + pyval" where
  "convert_attendee attendee =
     (case attendee of
        PDict a \<Rightarrow>
          (case map_of a ''email'' of
             None \<Rightarrow> Inl (KeyError ''email'')
           | Some email \<Rightarrow>
               Inr (PDict [(''email'', email),
                           (''displayName'', dict_get a ''displayName''),
                           (''optional'', dict_get_default a ''optional'' (PBool False)),
                           (''responseStatus'', dict_get_default a ''responseStatus'' (PStr ''needsAction'')),
                           (''comment'', dict_get a ''comment'')]))
      | _ \<Rightarrow> Inl TypeError)"

definition convert_recurrence :: "pyval \<Rightarrow> py_error + pyval" where
  "convert_recurrence recurrence =
     (case recurrence of
        PDict r \<Rightarrow>
          (case map_of r ''rrule'' of
             None \<Rightarrow> Inl (KeyError ''rrule'')
           | Some rrule \<Rightarrow>
               if truthy (dict_get r ''exdate'') then
                 (case rrule of
                    PList rules \<Rightarrow>
                      bind_err (py_iter (dict_get r ''exdate'')) (\<lambda>dates.
                      bind_err (map_err py_str dates) (\<lambda>strs.
                      Inr (PList (rules @ map (\<lambda>date. PStr (''EXDATE:'' @ date)) strs))))
                  | _ \<Rightarrow> Inl AttributeError)
               else Inr rrule)
      | _ \<Rightarrow> Inl TypeError)"

definition copy_field :: "string \<Rightarrow> pydict \<Rightarrow> pydict \<Rightarrow> pydict" where
  "copy_field name arguments body =
     (case map_of arguments name of None \<Rightarrow> body | Some v \<Rightarrow> dict_set name v body)"

definition convert_field ::
  "string \<Rightarrow> (pyval \<Rightarrow> py_error + pyval) \<Rightarrow> pydict \<Rightarrow> pydict \<Rightarrow> py_error + pydict" where
  "convert_field name conv arguments body =
     (case map_of arguments name of
        None \<Rightarrow> Inr body
      | Some v \<Rightarrow> bind_err (conv v) (\<lambda>v'. Inr (dict_set name v' body)))"

definition convert_attendees :: "pyval \<Rightarrow> py_error + pyval" where
  "convert_attendees attendees =
     bind_err (py_iter attendees) (\<lambda>xs. bind_err (map_err convert_attendee xs) (\<lambda>ys. Inr (PList ys)))"

definition build_update_body :: "pydict \<Rightarrow> py_error + pydict" where
  "build_update_body arguments =
     (let update_body = [];
          update_body = copy_field ''summary'' arguments update_body;
          update_body = copy_field ''description'' arguments update_body
      in bind_err (convert_field ''start'' convert_datetime arguments update_body) (\<lambda>update_body.
         bind_err (convert_field ''end'' convert_datetime arguments update_body) (\<lambda>update_body.
         bind_err (convert_field ''attendees'' convert_attendees arguments
                     (copy_field ''location'' arguments update_body)) (\<lambda>update_body.
         bind_err (convert_field ''recurrence'' convert_recurrence arguments
                     (copy_field ''status'' arguments
                        (copy_field ''visibility'' arguments update_body))) (\<lambda>update_body.
         Inr (copy_field ''conferenceData'' arguments
                (copy_field ''reminders'' arguments update_body)))))))"

section \<open>adapters/workers.py: submitting to the worker pool\<close>

text \<open>
  The pool's queue is an \<^verbatim>\<open>asyncio.Queue(maxsize=queue_size)\<close>. \<^verbatim>\<open>Queue.full()\<close> is
  false for \<^verbatim>\<open>maxsize <= 0\<close>. \<^verbatim>\<open>await queue.put(item)\<close> waits while the queue is
  full (\<open>PutWaits\<close>: the coroutine is suspended until a consumer frees a slot) and
  otherwise appends the item; it never raises \<^verbatim>\<open>QueueFull\<close>, which only
  \<^verbatim>\<open>put_nowait\<close> does. \<open>submit_task\<close> is one run of the submitting coroutine up to its
  first suspension; \<open>fresh_id\<close> is the generated task id.
\<close>

record 'f WorkerTask =
  task_id :: string
  task_func :: 'f
  created_at :: real
  priority :: int

record 'f WorkerPool =
  max_workers :: int
  queue :: "'f WorkerTask list"
  queue_maxsize :: int
  workers :: "string list"
  is_running :: bool
  completed_tasks :: nat
  failed_tasks :: nat
  start_time :: real

definition WorkerPool_init :: "int \<Rightarrow> int \<Rightarrow> real \<Rightarrow> 'f WorkerPool" where
  "WorkerPool_init n_workers queue_size now =
     \<lparr>max_workers = n_workers, queue = [], queue_maxsize = queue_size, workers = [],
      is_running = False, completed_tasks = 0, failed_tasks = 0, start_time = now\<rparr>"

definition queue_full :: "'a list \<Rightarrow> int \<Rightarrow> bool" where
  "queue_full q maxsize = (if maxsize \<le> 0 then False else int (length q) \<ge> maxsize)"

datatype 'a put_result = PutDone "'a list" | PutWaits | PutQueueFull

definition queue_put :: "'a list \<Rightarrow> int \<Rightarrow> 'a \<Rightarrow> 'a put_result" where
  "queue_put q maxsize item = (if queue_full q maxsize then PutWaits else PutDone (q @ [item]))"

definition start :: "real \<Rightarrow> 'f WorkerPool \<Rightarrow> 'f WorkerPool" where
  "start now pool =
     (if is_running pool then pool
      else pool\<lparr>is_running := True, start_time := now,
                workers := workers pool @ map (\<lambda>i. ''worker-'' @ nat_to_str i) [0..<nat (max_workers pool)]\<rparr>)"

datatype submit_result = Submitted string | Waiting | Rejected string

definition submit_task ::
  "'f WorkerPool \<Rightarrow> 'f \<Rightarrow> string option \<Rightarrow> int \<Rightarrow> real \<Rightarrow> string \<Rightarrow> submit_result \<times> 'f WorkerPool" where
  "submit_task pool func tid prio now fresh_id =
     (let pool = (if \<not> is_running pool then start now pool else pool);
          tid = (case tid of None \<Rightarrow> fresh_id | Some t \<Rightarrow> if t = [] then fresh_id else t);
          task = \<lparr>task_id = tid, task_func = func, created_at = now, priority = prio\<rparr>
      in case queue_put (queue pool) (queue_maxsize pool) task of
           PutDone q \<Rightarrow> (Submitted tid, pool\<lparr>queue := q\<rparr>)
         | PutWaits \<Rightarrow> (Waiting, pool)
         | PutQueueFull \<Rightarrow> (Rejected ''Worker pool queue is full'', pool))"

section \<open>router/idempotency.py and router/queue.py\<close>

text \<open>
  The cache talks to a Redis server or, when none is reachable at start-up, to the
  \<^verbatim>\<open>MockRedisClient\<close>, a plain dict that ignores the TTL. A server keeps each entry
  with its expiry instant (\<^verbatim>\<open>SETEX\<close>) and raises when it cannot be reached (\<open>up\<close> is
  false). A stored JSON text is represented by the value it decodes to:
  \<open>json_roundtrip\<close> is \<^verbatim>\<open>json.loads(json.dumps(v, default=str))\<close>.
  \<^verbatim>\<open>IdempotencyCache.get\<close> and \<^verbatim>\<open>set\<close> swallow every client error.
\<close>

datatype redis_client =
    Redis bool "(string \<times> (pyval \<times> real)) list"
  | MockRedisClient "(string \<times> pyval) list"

datatype redis_error = ConnectionError

definition redis_get :: "redis_client \<Rightarrow> real \<Rightarrow> string \<Rightarrow> redis_error + pyval option" where
  "redis_get client now key =
     (case client of
        MockRedisClient data \<Rightarrow> Inr (map_of data key)
      | Redis up entries \<Rightarrow>
          if \<not> up then Inl ConnectionError
          else (case map_of entries key of
                  None \<Rightarrow> Inr None
                | Some (v, expiry) \<Rightarrow> if now < expiry then Inr (Some v) else Inr None))"

definition redis_setex :: "redis_client \<Rightarrow> real \<Rightarrow> string \<Rightarrow> int \<Rightarrow> pyval \<Rightarrow> redis_error + redis_client" where
  "redis_setex client now key ttl v =
     (case client of
        MockRedisClient data \<Rightarrow> Inr (MockRedisClient (dict_set key v data))
      | Redis up entries \<Rightarrow>
          if \<not> up then Inl ConnectionError
          else Inr (Redis up (dict_set key (v, now + real_of_int ttl) entries)))"

fun json_roundtrip :: "pyval \<Rightarrow> pyval" where
  "json_roundtrip (PDatetime d) = PStr (datetime_str d)"
| "json_roundtrip (PList xs) = PList (map json_roundtrip xs)"
| "json_roundtrip (PDict items) = PDict (map (\<lambda>(k, v). (k, json_roundtrip v)) items)"
| "json_roundtrip v = v"

definition default_ttl :: int where
  "default_ttl = 300"

definition cache_get :: "redis_client \<Rightarrow> real \<Rightarrow> string \<Rightarrow> pyval option" where
  "cache_get client now key =
     (case redis_get client now key of Inl e \<Rightarrow> None | Inr result \<Rightarrow> result)"

definition cache_set :: "redis_client \<Rightarrow> real \<Rightarrow> string \<Rightarrow> pyval \<Rightarrow> int option \<Rightarrow> bool \<times> redis_client" where
  "cache_set client now key result ttl =
     (let ttl = (case ttl of None \<Rightarrow> default_ttl | Some t \<Rightarrow> if t = 0 then default_ttl else t)
      in case redis_setex client now key ttl (json_roundtrip result) of
           Inl e \<Rightarrow> (False, client)
         | Inr client' \<Rightarrow> (True, client'))"

text \<open>
  The router. The Calendar Adapter is a parameter: \<open>adapter n method arguments\<close> is
  what the adapter method returns (\<open>Inr\<close>) or the message of the exception it raises
  (\<open>Inl\<close>) when \<open>n\<close> adapter calls were made before. \<open>adapter_calls\<close> records every
  invocation of an adapter method.
\<close>

record CommandQueue =
  idempotency_cache :: redis_client
  adapter_calls :: "(string \<times> pydict) list"
  initialized :: bool

definition process_job ::
  "(nat \<Rightarrow> string \<Rightarrow> pydict \<Rightarrow> string + pyval) \<Rightarrow> string \<Rightarrow> pydict \<Rightarrow> CommandQueue \<Rightarrow> pyval \<times> CommandQueue" where
  "process_job adapter tool_name arguments st =
     (if tool_name \<in> set [''create_event'', ''update_event'', ''delete_event'', ''freebusy_query''] then
        (case adapter (length (adapter_calls st)) tool_name arguments of
           Inr result \<Rightarrow> (result, st\<lparr>adapter_calls := adapter_calls st @ [(tool_name, arguments)]\<rparr>)
         | Inl e \<Rightarrow>
             (create_error_response (''Error processing '' @ tool_name @ '': '' @ e) (Some e),
              st\<lparr>adapter_calls := adapter_calls st @ [(tool_name, arguments)]\<rparr>))
      else (create_error_response (''Unknown tool: '' @ tool_name) None, st))"

definition enqueue_tool_call ::
  "(string \<Rightarrow> string) \<Rightarrow> (nat \<Rightarrow> string \<Rightarrow> pydict \<Rightarrow> string + pyval) \<Rightarrow> real
     \<Rightarrow> string \<Rightarrow> pydict \<Rightarrow> string option \<Rightarrow> CommandQueue \<Rightarrow> pyval list \<times> CommandQueue" where
  "enqueue_tool_call sha256_hexdigest adapter now tool_name arguments user_id st0 =
     (let st = st0\<lparr>initialized := True\<rparr>
      in case validate_tool_args tool_name arguments of
           Inl (ValidationException message errors) \<Rightarrow>
             ([create_error_response (''Validation failed for '' @ tool_name) (Some message)], st)
         | Inr validated_args \<Rightarrow>
             (let idempotency_key = generate_key sha256_hexdigest tool_name (PDict arguments) user_id;
                  cached_result = cache_get (idempotency_cache st) now idempotency_key
              in case (case cached_result of None \<Rightarrow> None | Some c \<Rightarrow> if truthy c then Some c else None) of
                   Some c \<Rightarrow> ([c], st)
                 | None \<Rightarrow>
                     (case process_job adapter tool_name validated_args st of
                        (result, st') \<Rightarrow>
                          if truthy result
                          then ([result],
                                st'\<lparr>idempotency_cache :=
                                      snd (cache_set (idempotency_cache st') now idempotency_key result None)\<rparr>)
                          else ([result], st'))))"

section \<open>Properties\<close>

subsection \<open>Bearer token check\<close>

lemma split_on_no_sep: "c \<notin> set s \<Longrightarrow> split_on c s = [s]"
  by (induction s) auto

lemma split_on_prefix: "c \<notin> set p \<Longrightarrow> split_on c (p @ c # s) = p # split_on c s"
  by (induction p) auto

text \<open>
  C10. With no bearer token configured (unset or empty), a header \<^verbatim>\<open>Bearer t\<close> is
  accepted for every token \<open>t\<close> and \<open>t\<close> is returned; a token is well formed when it
  contains no space (the code returns the part of the header between the first and the
  second space). The rejection \<^verbatim>\<open>Invalid bearer token\<close> occurs only when a non-empty
  token is configured. A missing header and a header that does not start with
  \<^verbatim>\<open>Bearer \<close> are rejected with 401 under every configuration.
\<close>

theorem verify_bearer_token_unconfigured:
  "((bearer_token s = None \<or> bearer_token s = Some []) \<longrightarrow> CHR '' '' \<notin> set t \<longrightarrow>
      verify_bearer_token s (Some (''Bearer '' @ t)) = Inr t)
   \<and> (verify_bearer_token s h = Inl (HTTPException 401 ''Invalid bearer token'') \<longrightarrow>
        (\<exists>c. bearer_token s = Some c \<and> c \<noteq> []))
   \<and> ((h = None \<or> (\<exists>x. h = Some x \<and> \<not> startswith x ''Bearer '')) \<longrightarrow>
        (\<exists>d. verify_bearer_token s h = Inl (HTTPException 401 d)))"
proof (intro conjI impI)
  assume cfg: "bearer_token s = None \<or> bearer_token s = Some []" and t: "CHR '' '' \<notin> set t"
  have "split_on CHR '' '' (''Bearer'' @ CHR '' '' # t) = ''Bearer'' # split_on CHR '' '' t"
    by (rule split_on_prefix) simp
  then have sp: "split_on CHR '' '' (''Bearer '' @ t) = [''Bearer'', t]"
    using t by (simp add: split_on_no_sep)
  have sw: "startswith (''Bearer '' @ t) ''Bearer ''"
    by (simp add: startswith_def)
  from cfg show "verify_bearer_token s (Some (''Bearer '' @ t)) = Inr t"
    using sp sw unfolding verify_bearer_token_def by (auto simp del: split_on.simps)
next
  assume "verify_bearer_token s h = Inl (HTTPException 401 ''Invalid bearer token'')"
  then show "\<exists>c. bearer_token s = Some c \<and> c \<noteq> []"
    unfolding verify_bearer_token_def
    by (auto split: option.splits if_splits)
next
  assume "h = None \<or> (\<exists>x. h = Some x \<and> \<not> startswith x ''Bearer '')"
  then show "\<exists>d. verify_bearer_token s h = Inl (HTTPException 401 d)"
    unfolding verify_bearer_token_def by auto
qed

theorem verify_bearer_token_unconfigured_witness:
  "verify_bearer_token \<lparr>bearer_token = None, mcp_protocol_version = ''2025-06-18''\<rparr> (Some ''Bearer abc'') = Inr ''abc''
   \<and> bearer_token \<lparr>bearer_token = Some ''s3'', mcp_protocol_version = ''2025-06-18''\<rparr> = Some ''s3''
   \<and> verify_bearer_token \<lparr>bearer_token = Some ''s3'', mcp_protocol_version = ''2025-06-18''\<rparr> (Some ''Bearer abc'')
       = Inl (HTTPException 401 ''Invalid bearer token'')
   \<and> verify_bearer_token \<lparr>bearer_token = None, mcp_protocol_version = ''2025-06-18''\<rparr> (Some ''Basic abc'')
       = Inl (HTTPException 401 ''Bearer token required'')"
  using verify_bearer_token_unconfigured [of "\<lparr>bearer_token = None, mcp_protocol_version = ''2025-06-18''\<rparr>" "''abc''" "Some ''Basic abc''"]
  by (simp add: verify_bearer_token_def startswith_def)

subsection \<open>Quota marker\<close>

text \<open>
  C4, as the code has it. A call of \<^verbatim>\<open>handle_quota_exceeded\<close> at clock reading \<open>now\<close>
  overwrites the marker with \<open>now\<close> plus the retry-after value (plus 60 when that is
  absent or zero), whatever the marker held before. So two calls with the same
  retry-after value at non-decreasing clock readings never move the marker backward.
\<close>

theorem quota_marker_overwritten:
  "quota_exceeded_until (handle_quota_exceeded now ra q)
     = Some (now + (case ra of None \<Rightarrow> 60 | Some r \<Rightarrow> if r \<noteq> 0 then real_of_int r else 60))
   \<and> (now1 \<le> now2 \<longrightarrow>
        (\<exists>a b. quota_exceeded_until (handle_quota_exceeded now1 ra q) = Some a
             \<and> quota_exceeded_until (handle_quota_exceeded now2 ra (handle_quota_exceeded now1 ra q)) = Some b
             \<and> a \<le> b))"
  by (auto simp: handle_quota_exceeded_def split: option.splits)

theorem quota_marker_overwritten_witness:
  "quota_exceeded_until (handle_quota_exceeded 1000 None QuotaManager_init) = Some 1060
   \<and> (\<exists>a b. quota_exceeded_until (handle_quota_exceeded 1000 None QuotaManager_init) = Some a
         \<and> quota_exceeded_until
              (handle_quota_exceeded 1001 None (handle_quota_exceeded 1000 None QuotaManager_init)) = Some b
         \<and> a \<le> b)"
  using quota_marker_overwritten [of 1000 None QuotaManager_init 1000 1001]
  by (simp add: handle_quota_exceeded_def QuotaManager_init_def)

text \<open>
  C4 as stated fails: the marker stands at 1600 after a call with retry-after 600 at time
  1000, and a call with retry-after 1 at time 1001 resets it to 1002.
\<close>

theorem quota_marker_counterexample:
  "quota_exceeded_until (handle_quota_exceeded 1000 (Some 600) QuotaManager_init) = Some 1600
   \<and> quota_exceeded_until (handle_quota_exceeded 1001 (Some 1) (handle_quota_exceeded 1000 (Some 600) QuotaManager_init)) = Some 1002
   \<and> (1002 :: real) < 1600"
  by (simp add: handle_quota_exceeded_def QuotaManager_init_def)

subsection \<open>Retry engine\<close>



lemma non_retryable_stops_loop:
  "status e \<in> set [400, 401, 403, 404] \<Longrightarrow> func attempt = RaisesHttp e \<Longrightarrow>
   retry_loop config func rnd attempt (Suc remaining) last_exc = (Inl (EHttp e), 1, [])"
  by (simp add: on_attempt_def)

lemma other_status_not_retried:
  "status e \<notin> set [429, 500, 502, 503, 504] \<Longrightarrow> func attempt = RaisesHttp e \<Longrightarrow>
   retry_loop config func rnd attempt (Suc remaining) last_exc = (Inl (EHttp e), 1, [])"
  by (simp add: on_attempt_def)

text \<open>
  C6 as stated fails for the 5xx statuses the engine does not retry: a 501 that carries
  a retry-after of 2 seconds is raised at once, after one invocation and without any
  wait.
\<close>

theorem retry_after_501_counterexample:
  "exponential_backoff_retry (\<lambda>k. RaisesHttp \<lparr>status = 501, retry_after = Some ''2''\<rparr> :: unit outcome)
     (Some RetryConfig_default) (\<lambda>k. 1 / 2)
   = (Inl (EHttp \<lparr>status = 501, retry_after = Some ''2''\<rparr>), 1, [])"
  by (simp add: exponential_backoff_retry_def RetryConfig_default_def on_attempt_def eval_nat_numeral)

text \<open>
  C6, as the code has it. The statuses the engine retries are 429, 500, 502, 503 and 504.
  When an attempt that is not the last fails with one of them and the response carries a
  retry-after header that \<^verbatim>\<open>int()\<close> reads as an integer \<open>n\<close> within the float range, the
  engine sleeps, before the next attempt, the maximum of \<open>n\<close> and the computed delay
  \<open>min (base_delay * exponential_base ^ attempt) max_delay\<close>, the latter scaled by
  \<open>0.5 + r * 0.5\<close> when jitter is on; that sleep is at least \<open>n\<close> for every random
  draw \<open>r\<close>.
\<close>

theorem retry_after_honoured:
  "status e \<in> set [429, 500, 502, 503, 504] \<Longrightarrow> retry_after e = Some h \<Longrightarrow> py_int h = Some n \<Longrightarrow>
   n < 2 ^ 1024 - 2 ^ 970 \<Longrightarrow> int attempt < max_retries config \<Longrightarrow> func attempt = RaisesHttp e \<Longrightarrow>
   retry_delay config attempt r e
     = Inr (max
         (if jitter config
           then min (base_delay config * exponential_base config ^ attempt) (max_delay config) * (0.5 + r * 0.5)
           else min (base_delay config * exponential_base config ^ attempt) (max_delay config))
         (real_of_int n))
   \<and> on_attempt config attempt r (func attempt)
     = Sleep (max
         (if jitter config
           then min (base_delay config * exponential_base config ^ attempt) (max_delay config) * (0.5 + r * 0.5)
           else min (base_delay config * exponential_base config ^ attempt) (max_delay config))
         (real_of_int n))
   \<and> real_of_int n
     \<le> max
         (if jitter config
           then min (base_delay config * exponential_base config ^ attempt) (max_delay config) * (0.5 + r * 0.5)
           else min (base_delay config * exponential_base config ^ attempt) (max_delay config))
         (real_of_int n)
   \<and> (\<exists>res k sleeps.
         retry_loop config func rnd (Suc attempt) remaining (Some (EHttp e)) = (res, k, sleeps)
         \<and> retry_loop config func rnd attempt (Suc remaining) last_exc
             = (res, Suc k,
                max
         (if jitter config
           then min (base_delay config * exponential_base config ^ attempt) (max_delay config) * (0.5 + rnd attempt * 0.5)
           else min (base_delay config * exponential_base config ^ attempt) (max_delay config))
         (real_of_int n) # sleeps))"
proof -
  assume a: "status e \<in> set [429, 500, 502, 503, 504]" "retry_after e = Some h" "py_int h = Some n"
    "n < 2 ^ 1024 - 2 ^ 970" "int attempt < max_retries config" "func attempt = RaisesHttp e"
  have ne: "h \<noteq> []"
    using a(3) by (auto simp: py_int_def strip_def split: if_splits)
  have b: "backoff_delay config attempt x
      = (if jitter config
           then min (base_delay config * exponential_base config ^ attempt) (max_delay config) * (0.5 + x * 0.5)
           else min (base_delay config * exponential_base config ^ attempt) (max_delay config))" for x
    by (simp add: backoff_delay_def Let_def)
  have d: "retry_delay config attempt x e = Inr (max (backoff_delay config attempt x) (real_of_int n))" for x
    using a(2,3,4) ne by (simp add: retry_delay_def Let_def float_limit_def max_def)
  have s: "on_attempt config attempt x (func attempt)
             = Sleep (max (backoff_delay config attempt x) (real_of_int n))" for x
    using a(1,5,6) d [of x] by (auto simp: on_attempt_def)
  obtain res k sleeps
    where rl: "retry_loop config func rnd (Suc attempt) remaining (Some (EHttp e)) = (res, k, sleeps)"
    by (cases "retry_loop config func rnd (Suc attempt) remaining (Some (EHttp e))") auto
  have "retry_loop config func rnd attempt (Suc remaining) last_exc
          = (res, Suc k, max (backoff_delay config attempt (rnd attempt)) (real_of_int n) # sleeps)"
    using s [of "rnd attempt"] rl a(6) by (simp add: raised_def)
  then show ?thesis
    using d [of r] s [of r] rl unfolding b by auto
qed

theorem retry_after_honoured_witness:
  "retry_delay RetryConfig_default 0 (1 / 2) \<lparr>status = 429, retry_after = Some ''2''\<rparr>
     = Inr (max
         (if jitter RetryConfig_default
           then min (base_delay RetryConfig_default * exponential_base RetryConfig_default ^ 0) (max_delay RetryConfig_default) * (0.5 + (1 / 2) * 0.5)
           else min (base_delay RetryConfig_default * exponential_base RetryConfig_default ^ 0) (max_delay RetryConfig_default))
         (real_of_int 2))
   \<and> on_attempt RetryConfig_default 0 (1 / 2) ((\<lambda>k. RaisesHttp \<lparr>status = 429, retry_after = Some ''2''\<rparr> :: unit outcome) 0)
     = Sleep (max
         (if jitter RetryConfig_default
           then min (base_delay RetryConfig_default * exponential_base RetryConfig_default ^ 0) (max_delay RetryConfig_default) * (0.5 + (1 / 2) * 0.5)
           else min (base_delay RetryConfig_default * exponential_base RetryConfig_default ^ 0) (max_delay RetryConfig_default))
         (real_of_int 2))
   \<and> real_of_int 2
     \<le> max
         (if jitter RetryConfig_default
           then min (base_delay RetryConfig_default * exponential_base RetryConfig_default ^ 0) (max_delay RetryConfig_default) * (0.5 + (1 / 2) * 0.5)
           else min (base_delay RetryConfig_default * exponential_base RetryConfig_default ^ 0) (max_delay RetryConfig_default))
         (real_of_int 2)
   \<and> (\<exists>res k sleeps.
         retry_loop RetryConfig_default (\<lambda>k. RaisesHttp \<lparr>status = 429, retry_after = Some ''2''\<rparr> :: unit outcome) (\<lambda>k. 1 / 2) (Suc 0) 3 (Some (EHttp \<lparr>status = 429, retry_after = Some ''2''\<rparr>)) = (res, k, sleeps)
         \<and> retry_loop RetryConfig_default (\<lambda>k. RaisesHttp \<lparr>status = 429, retry_after = Some ''2''\<rparr> :: unit outcome) (\<lambda>k. 1 / 2) 0 (Suc 3) None
             = (res, Suc k,
                max
         (if jitter RetryConfig_default
           then min (base_delay RetryConfig_default * exponential_base RetryConfig_default ^ 0) (max_delay RetryConfig_default) * (0.5 + (\<lambda>k. 1 / 2) 0 * 0.5)
           else min (base_delay RetryConfig_default * exponential_base RetryConfig_default ^ 0) (max_delay RetryConfig_default))
         (real_of_int 2) # sleeps))"
proof -
  have p1: "status \<lparr>status = 429, retry_after = Some ''2''\<rparr> \<in> set [429, 500, 502, 503, 504]"
    by simp
  have p2: "retry_after \<lparr>status = 429, retry_after = Some ''2''\<rparr> = Some ''2''"
    by simp
  have p3: "py_int ''2'' = Some 2"
    by (simp add: py_int_def max_str_digits_def strip_def is_space_def is_digit_def digit_val_def)
  have p4: "(2 :: int) < 2 ^ 1024 - 2 ^ 970"
    by simp
  have p5: "int 0 < max_retries RetryConfig_default"
    by (simp add: RetryConfig_default_def)
  have p6: "(\<lambda>k. RaisesHttp \<lparr>status = 429, retry_after = Some ''2''\<rparr> :: unit outcome) 0 = RaisesHttp \<lparr>status = 429, retry_after = Some ''2''\<rparr>"
    by simp
  show ?thesis
    by (rule retry_after_honoured [OF p1 p2 p3 p4 p5 p6])
qed

text \<open>
  A 429 with a retry-after of 2 seconds under the default configuration: the computed
  delay is at most 1 second, so the engine sleeps exactly 2 seconds, whatever the draw.
\<close>

lemma retry_after_two_seconds:
  "r < 1 \<Longrightarrow>
   on_attempt RetryConfig_default 0 r (RaisesHttp \<lparr>status = 429, retry_after = Some ''2''\<rparr>) = Sleep 2"
proof -
  assume r: "r < 1"
  have "py_int ''2'' = Some 2"
    by (simp add: py_int_def max_str_digits_def strip_def is_space_def is_digit_def digit_val_def)
  moreover have "backoff_delay RetryConfig_default 0 r < 2"
    using r by (simp add: backoff_delay_def RetryConfig_default_def)
  ultimately show ?thesis
    by (simp add: on_attempt_def retry_delay_def RetryConfig_default_def float_limit_def Let_def)
qed

text \<open>
  An integer retry-after beyond the float range: the log line raises before the sleep.
\<close>

lemma retry_after_overflow:
  "status e \<in> set [429, 500, 502, 503, 504] \<Longrightarrow> retry_after e = Some h \<Longrightarrow> py_int h = Some n \<Longrightarrow>
   2 ^ 1024 - 2 ^ 970 \<le> n \<Longrightarrow> backoff_delay config attempt r < real_of_int n \<Longrightarrow>
   int attempt < max_retries config \<Longrightarrow>
   on_attempt config attempt r (RaisesHttp e) = Raise EOverflowError"
proof -
  assume a: "status e \<in> set [429, 500, 502, 503, 504]" "retry_after e = Some h" "py_int h = Some n"
    "2 ^ 1024 - 2 ^ 970 \<le> n" "backoff_delay config attempt r < real_of_int n"
    "int attempt < max_retries config"
  have "h \<noteq> []"
    using a(3) by (auto simp: py_int_def strip_def split: if_splits)
  then have "retry_delay config attempt r e = Inl EOverflowError"
    using a(2,3,4,5) by (simp add: retry_delay_def Let_def float_limit_def)
  then show ?thesis
    using a(1,6) by (auto simp: on_attempt_def)
qed

subsection \<open>Idempotency key\<close>

lemma sorted_keys_unique:
  fixes xs ys :: "(string \<times> pyval) list"
  assumes "distinct (map fst xs)" "distinct (map fst ys)" "set (map fst xs) = set (map fst ys)"
  shows "map fst (sort_key fst xs) = map fst (sort_key fst ys)"
proof (rule sorted_distinct_set_unique)
  show "sorted (map fst (sort_key fst xs))" by (rule sorted_sort_key)
  show "sorted (map fst (sort_key fst ys))" by (rule sorted_sort_key)
  show "distinct (map fst (sort_key fst xs))"
    using assms(1) by (simp add: distinct_map)
  show "distinct (map fst (sort_key fst ys))"
    using assms(2) by (simp add: distinct_map)
  show "set (map fst (sort_key fst xs)) = set (map fst (sort_key fst ys))"
    using assms(3) by simp
qed

lemma same_mapping_keys:
  assumes "length xs = length ys" "distinct (map fst xs)" "distinct (map fst ys)"
    and "list_all (\<lambda>(k, v). case map_of ys k of None \<Rightarrow> False | Some v' \<Rightarrow> same_mapping v v') xs"
  shows "set (map fst xs) = set (map fst ys)"
proof -
  have sub: "set (map fst xs) \<subseteq> set (map fst ys)"
  proof
    fix k assume "k \<in> set (map fst xs)"
    then obtain v where "(k, v) \<in> set xs" by auto
    with assms(4) have "map_of ys k \<noteq> None"
      by (auto simp: list_all_iff split: option.splits)
    then show "k \<in> set (map fst ys)" by (simp add: map_of_eq_None_iff)
  qed
  have "card (set (map fst xs)) = card (set (map fst ys))"
    using assms(1-3) by (metis distinct_card length_map)
  with sub show ?thesis by (simp add: card_subset_eq)
qed

lemma dumps_same_mapping:
  "same_mapping a b \<Longrightarrow> wf_py a \<Longrightarrow> wf_py b \<Longrightarrow> dumps True a = dumps True b"
proof (induction a arbitrary: b)
  case (PList xs)
  then obtain ys where b: "b = PList ys" and rel: "list_all2 same_mapping xs ys"
    by (cases b) auto
  have "map (dumps True) xs = map (dumps True) ys"
  proof (rule nth_equalityI)
    show "length (map (dumps True) xs) = length (map (dumps True) ys)"
      using rel by (simp add: list_all2_lengthD)
  next
    fix i assume "i < length (map (dumps True) xs)"
    then have i: "i < length xs" "i < length ys" using rel by (auto dest: list_all2_lengthD)
    then have "same_mapping (xs ! i) (ys ! i)" using rel by (simp add: list_all2_nthD)
    moreover have "wf_py (xs ! i)" "wf_py (ys ! i)"
      using PList.prems b i by (auto simp: list_all_length)
    ultimately have "dumps True (xs ! i) = dumps True (ys ! i)"
      using PList.IH i by simp
    then show "map (dumps True) xs ! i = map (dumps True) ys ! i" using i by simp
  qed
  then show ?case using b by simp
next
  case (PDict xs)
  then obtain ys where b: "b = PDict ys" and len: "length xs = length ys"
    and rel: "list_all (\<lambda>(k, v). case map_of ys k of None \<Rightarrow> False | Some v' \<Rightarrow> same_mapping v v') xs"
    by (cases b) auto
  have dx: "distinct (map fst xs)" and dy: "distinct (map fst ys)"
    and wx: "\<And>k v. (k, v) \<in> set xs \<Longrightarrow> wf_py v" and wy: "\<And>k v. (k, v) \<in> set ys \<Longrightarrow> wf_py v"
    using PDict.prems b by (auto simp: list_all_iff)
  let ?sx = "sort_key fst xs" and ?sy = "sort_key fst ys"
  let ?F = "\<lambda>(k, v). quote k @ '': '' @ dumps True v"
  have keys: "map fst ?sx = map fst ?sy"
    using sorted_keys_unique [OF dx dy same_mapping_keys [OF len dx dy rel]] .
  have "map ?F ?sx = map ?F ?sy"
  proof (rule nth_equalityI)
    show "length (map ?F ?sx) = length (map ?F ?sy)" using len by simp
  next
    fix i assume "i < length (map ?F ?sx)"
    then have i: "i < length ?sx" "i < length ?sy" using len by auto
    obtain k v where x: "?sx ! i = (k, v)" by (cases "?sx ! i") auto
    obtain k' v' where y: "?sy ! i = (k', v')" by (cases "?sy ! i") auto
    have "fst (?sx ! i) = fst (?sy ! i)"
      using keys i by (metis nth_map)
    then have kk: "k' = k" using x y by simp
    have inx: "(k, v) \<in> set xs" using x i by (metis nth_mem set_sort)
    have iny: "(k, v') \<in> set ys" using y kk i by (metis nth_mem set_sort)
    have "map_of ys k = Some v'" using iny dy by simp
    with rel inx have "same_mapping v v'" by (auto simp: list_all_iff)
    then have "dumps True v = dumps True v'"
      using PDict.IH [of "(k, v)" v v'] inx wx [OF inx] wy [OF iny] by simp
    then show "map ?F ?sx ! i = map ?F ?sy ! i" using x y kk i by simp
  qed
  then show ?case using b by simp
qed (auto)

text \<open>
  C8. The key is a function of the operation name, the arguments and the caller, so the
  same inputs give the same key; and it does not depend on the order in which the
  argument dicts enumerate their keys, at any nesting depth: two argument values that are
  the same up to key order give the same key, whatever the digest function.
\<close>

theorem generate_key_order_independent:
  "same_mapping args1 args2 \<Longrightarrow> wf_py args1 \<Longrightarrow> wf_py args2 \<Longrightarrow>
   generate_key h tool args1 user = generate_key h tool args2 user"
proof -
  assume a: "same_mapping args1 args2" "wf_py args1" "wf_py args2"
  let ?u = "case user of None \<Rightarrow> PNone | Some u \<Rightarrow> PStr u"
  let ?d1 = "PDict [(''tool'', PStr tool), (''args'', args1), (''user'', ?u)]"
  let ?d2 = "PDict [(''tool'', PStr tool), (''args'', args2), (''user'', ?u)]"
  have "same_mapping ?d1 ?d2" using a(1) by (cases user) auto
  moreover have "wf_py ?d1" "wf_py ?d2" using a(2,3) by (cases user; simp)+
  ultimately have "dumps True ?d1 = dumps True ?d2" by (rule dumps_same_mapping)
  then show ?thesis by (simp add: generate_key_def Let_def)
qed

theorem generate_key_order_independent_witness:
  "generate_key (\<lambda>s. s) ''delete_event''
     (PDict [(''calendarId'', PStr ''cal1''), (''opts'', PDict [(''a'', PInt 1), (''b'', PNone)])]) (Some ''u1'')
   = generate_key (\<lambda>s. s) ''delete_event''
     (PDict [(''opts'', PDict [(''b'', PNone), (''a'', PInt 1)]), (''calendarId'', PStr ''cal1'')]) (Some ''u1'')"
  using generate_key_order_independent [of
     "PDict [(''calendarId'', PStr ''cal1''), (''opts'', PDict [(''a'', PInt 1), (''b'', PNone)])]"
     "PDict [(''opts'', PDict [(''b'', PNone), (''a'', PInt 1)]), (''calendarId'', PStr ''cal1'')]"
     "\<lambda>s. s" "''delete_event''" "Some ''u1''"]
  by simp

subsection \<open>Audit sanitising\<close>

lemma dict_set_present:
  "distinct (map fst d) \<Longrightarrow> k \<in> fst ` set d \<Longrightarrow>
   dict_set k v d = map (\<lambda>(k', v'). (k', if k' = k then v else v')) d"
proof (induction d)
  case Nil
  then show ?case by simp
next
  case (Cons p d)
  obtain k' v' where p: "p = (k', v')" by (cases p)
  show ?case
  proof (cases "k' = k")
    case True
    then have "k \<notin> fst ` set d" using Cons.prems(1) p by auto
    then have "map (\<lambda>(k', v'). (k', if k' = k then v else v')) d = d"
      by (intro map_idI) (auto simp: image_iff)
    then show ?thesis using True p by simp
  next
    case False
    then show ?thesis using Cons p by auto
  qed
qed

lemma redact_keys:
  "distinct (map fst s) \<Longrightarrow> set ks \<subseteq> fst ` set s \<Longrightarrow>
   fold (\<lambda>key s. if P key then dict_set key r s else s) ks s
     = map (\<lambda>(k, v). (k, if k \<in> set ks \<and> P k then r else v)) s"
proof (induction ks arbitrary: s)
  case Nil
  then show ?case by simp
next
  case (Cons key ks)
  let ?s' = "if P key then dict_set key r s else s"
  have s': "?s' = map (\<lambda>(k, v). (k, if k = key \<and> P k then r else v)) s"
  proof (cases "P key")
    case True
    have "dict_set key r s = map (\<lambda>(k', v'). (k', if k' = key then r else v')) s"
      using Cons.prems by (intro dict_set_present) auto
    also have "\<dots> = map (\<lambda>(k, v). (k, if k = key \<and> P k then r else v)) s"
      using True by (intro map_cong) auto
    finally show ?thesis using True by simp
  next
    case False
    have "map (\<lambda>(k, v). (k, if k = key \<and> P k then r else v)) s = s"
      using False by (intro map_idI) auto
    then show ?thesis using False by simp
  qed
  have keys: "map fst ?s' = map fst s"
    unfolding s' by (simp add: comp_def case_prod_beta)
  then have sets: "fst ` set ?s' = fst ` set s"
    by (metis list.set_map)
  have "fold (\<lambda>key s. if P key then dict_set key r s else s) ks ?s'
          = map (\<lambda>(k, v). (k, if k \<in> set ks \<and> P k then r else v)) ?s'"
    using Cons.prems keys sets by (intro Cons.IH) auto
  also have "\<dots> = map (\<lambda>(k, v). (k, if k \<in> set (key # ks) \<and> P k then r else v)) s"
    unfolding s' by (auto simp: comp_def case_prod_beta)
  finally show ?case by simp
qed

lemma redact_field_map:
  assumes "distinct (map fst d)"
  shows "redact_field field d
           = map (\<lambda>(k, v). (k, if contains (lower field) (lower k) then REDACTED else v)) d"
proof -
  have "redact_field field d
          = map (\<lambda>(k, v). (k, if k \<in> set (map fst d) \<and> contains (lower field) (lower k) then REDACTED else v)) d"
    unfolding redact_field_def using assms by (intro redact_keys) auto
  also have "\<dots> = map (\<lambda>(k, v). (k, if contains (lower field) (lower k) then REDACTED else v)) d"
    by (intro map_cong) force+
  finally show ?thesis .
qed

lemma redact_all_fields:
  "distinct (map fst d) \<Longrightarrow>
   fold redact_field fs d
     = map (\<lambda>(k, v). (k, if list_ex (\<lambda>field. contains (lower field) (lower k)) fs then REDACTED else v)) d"
proof (induction fs arbitrary: d)
  case Nil
  then show ?case by simp
next
  case (Cons f fs)
  let ?d' = "redact_field f d"
  have d': "?d' = map (\<lambda>(k, v). (k, if contains (lower f) (lower k) then REDACTED else v)) d"
    using Cons.prems by (rule redact_field_map)
  have "map fst ?d' = map fst d"
    unfolding d' by (simp add: comp_def case_prod_beta)
  then have "distinct (map fst ?d')" using Cons.prems by simp
  then have "fold redact_field fs ?d'
      = map (\<lambda>(k, v). (k, if list_ex (\<lambda>field. contains (lower field) (lower k)) fs then REDACTED else v)) ?d'"
    by (rule Cons.IH)
  also have "\<dots> = map (\<lambda>(k, v). (k, if list_ex (\<lambda>field. contains (lower field) (lower k)) (f # fs) then REDACTED else v)) d"
    unfolding d' by (auto simp: comp_def case_prod_beta)
  finally show ?case by simp
qed

text \<open>
  C9, as the code has it. In a non-empty before-state, after-state or argument dict,
  every top-level field whose lower-cased name contains one of the words password,
  token, secret, key, credential has its value replaced by the marker; no field is
  omitted and the order is kept; the value of every other top-level field is kept as it
  is, whatever it contains.
\<close>

theorem sanitize_top_level_only:
  "distinct (map fst d) \<Longrightarrow> d \<noteq> [] \<Longrightarrow>
   sanitize_state (Some d) = Some (map (\<lambda>(k, v). (k, if is_sensitive k then REDACTED else v)) d)
   \<and> sanitize_arguments (Some d) = Some (map (\<lambda>(k, v). (k, if is_sensitive k then REDACTED else v)) d)"
  by (simp add: sanitize_state_def sanitize_arguments_def redact_all_fields is_sensitive_def)

theorem sanitize_top_level_only_witness:
  "sanitize_state (Some [(''summary'', PStr ''Standup''), (''API_Key'', PStr ''k1'')])
     = Some [(''summary'', PStr ''Standup''), (''API_Key'', REDACTED)]
   \<and> sanitize_arguments (Some [(''summary'', PStr ''Standup''), (''API_Key'', PStr ''k1'')])
     = Some [(''summary'', PStr ''Standup''), (''API_Key'', REDACTED)]"
proof -
  have s: "is_sensitive ''API_Key''" "\<not> is_sensitive ''summary''" by code_simp+
  show ?thesis
    using sanitize_top_level_only [of "[(''summary'', PStr ''Standup''), (''API_Key'', PStr ''k1'')]"] s
    by simp
qed

text \<open>
  C9 as stated fails below the top level: a \<^verbatim>\<open>password\<close> field inside the value of
  \<^verbatim>\<open>creator\<close> is written to the record unredacted.
\<close>

theorem sanitize_nested_counterexample:
  "sanitize_state (Some [(''creator'', PDict [(''password'', PStr ''hunter2'')])])
     = Some [(''creator'', PDict [(''password'', PStr ''hunter2'')])]"
  by code_simp

subsection \<open>Schema validation and the update body\<close>

text \<open>
  C2. The code accepts a start/end value that gives both \<^verbatim>\<open>dateTime\<close> and \<^verbatim>\<open>date\<close>,
  and one that gives neither: when the validator runs for \<^verbatim>\<open>dateTime\<close> and for
  \<^verbatim>\<open>date\<close>, \<^verbatim>\<open>date\<close> is not among the fields validated so far, and for a field that is
  not supplied the validator does not run.
\<close>

theorem event_datetime_accepts_both_and_neither:
  "validate_model EventDateTime
     [(''dateTime'', PDatetime ''2024-01-15T10:00:00''), (''date'', PStr ''2024-01-15'')] [] []
     = Inr [(''dateTime'', PDatetime ''2024-01-15T10:00:00''), (''date'', PStr ''2024-01-15''), (''timeZone'', PNone)]
   \<and> validate_model EventDateTime [] [] []
     = Inr [(''dateTime'', PNone), (''date'', PNone), (''timeZone'', PNone)]"
  by code_simp

text \<open>
  C1. For an \<^verbatim>\<open>update_event\<close> call that supplies only \<^verbatim>\<open>calendarId\<close>, \<^verbatim>\<open>eventId\<close> and
  \<^verbatim>\<open>summary\<close>, the router hands the adapter the dict of all thirteen fields of the
  validated model, the absent ones as \<^verbatim>\<open>None\<close>; building the update body from it fails
  with an \<^verbatim>\<open>AttributeError\<close> at \<^verbatim>\<open>start\<close>, so no update body with exactly
  \<^verbatim>\<open>summary\<close> is produced.
\<close>

theorem router_update_body_raises:
  "validate_tool_args ''update_event''
     [(''calendarId'', PStr c), (''eventId'', PStr e), (''summary'', PStr s)]
     = Inr [(''calendarId'', PStr c), (''eventId'', PStr e), (''summary'', PStr s),
            (''description'', PNone), (''start'', PNone), (''end'', PNone), (''location'', PNone),
            (''attendees'', PNone), (''visibility'', PNone), (''status'', PNone),
            (''recurrence'', PNone), (''reminders'', PNone), (''conferenceData'', PNone)]
   \<and> build_update_body
       [(''calendarId'', PStr c), (''eventId'', PStr e), (''summary'', PStr s),
        (''description'', PNone), (''start'', PNone), (''end'', PNone), (''location'', PNone),
        (''attendees'', PNone), (''visibility'', PNone), (''status'', PNone),
        (''recurrence'', PNone), (''reminders'', PNone), (''conferenceData'', PNone)]
     = Inl AttributeError"
  by (simp add: validate_tool_args_def SCHEMA_MAP_def UpdateEventSchema_def required_def optional_def
      t_str_def t_optional_def build_update_body_def copy_field_def convert_field_def bind_err_def convert_datetime_def)

text \<open>Called on a dict that holds only the supplied keys, the builder keeps only \<^verbatim>\<open>summary\<close>.\<close>

lemma build_update_body_plain_dict:
  "build_update_body [(''calendarId'', PStr c), (''eventId'', PStr e), (''summary'', PStr s)]
     = Inr [(''summary'', PStr s)]"
  by (simp add: build_update_body_def copy_field_def convert_field_def bind_err_def)

subsection \<open>Worker pool\<close>

text \<open>
  C3. Submitting to a pool whose bounded queue is full does not fail: the submitter
  waits for a free slot. No submission is ever rejected, since \<^verbatim>\<open>Queue.put\<close> does not
  raise \<^verbatim>\<open>QueueFull\<close>.
\<close>

theorem submit_task_full_queue_waits:
  "0 < queue_maxsize pool \<Longrightarrow> queue_maxsize pool \<le> int (length (queue pool)) \<Longrightarrow>
   fst (submit_task pool func tid prio now fresh_id) = Waiting"
  by (simp add: submit_task_def start_def queue_put_def queue_full_def Let_def)

theorem submit_task_full_queue_waits_witness:
  "fst (submit_task
     \<lparr>max_workers = 5, queue = [\<lparr>task_id = ''t0'', task_func = (), created_at = 0, priority = 0\<rparr>],
      queue_maxsize = 1, workers = [], is_running = True, completed_tasks = 0, failed_tasks = 0, start_time = 0\<rparr>
     () (Some ''t1'') 0 1 ''fresh'') = Waiting"
  using submit_task_full_queue_waits [of
     "\<lparr>max_workers = 5, queue = [\<lparr>task_id = ''t0'', task_func = (), created_at = 0, priority = 0\<rparr>],
      queue_maxsize = 1, workers = [], is_running = True, completed_tasks = 0, failed_tasks = 0, start_time = 0\<rparr>"
     "()" "Some ''t1''" 0 1 "''fresh''"]
  by simp

lemma submit_task_never_rejected:
  "fst (submit_task pool func tid prio now fresh_id) \<noteq> Rejected msg"
  by (simp add: submit_task_def queue_put_def Let_def)

subsection \<open>Command router\<close>

lemma cache_get_mock:
  "map_of data key = Some r \<Longrightarrow> cache_get (MockRedisClient data) now key = Some r"
  by (simp add: cache_get_def redis_get_def)

lemma cache_get_unexpired:
  "map_of entries key = Some (r, expiry) \<Longrightarrow> now < expiry \<Longrightarrow>
   cache_get (Redis True entries) now key = Some r"
  by (simp add: cache_get_def redis_get_def)

lemma cache_get_expired:
  "map_of entries key = Some (r, expiry) \<Longrightarrow> expiry \<le> now \<Longrightarrow>
   cache_get (Redis up entries) now key = None"
  by (simp add: cache_get_def redis_get_def)

lemma cache_get_unreachable: "cache_get (Redis False entries) now key = None"
  by (simp add: cache_get_def redis_get_def)

text \<open>
  C7 as stated fails when the store cannot be reached: the key has a stored entry that
  expires at 300, the call comes at 10, the lookup's connection error is swallowed and
  reported as no entry, and the adapter's delete method is invoked; the router returns
  what the adapter returns, not the stored result.
\<close>

theorem unreachable_store_counterexample:
  "fst (enqueue_tool_call (\<lambda>s. s) (\<lambda>n m a. Inr (PDict [(''success'', PBool False)])) 10 ''delete_event''
     [(''calendarId'', PStr ''cal1''), (''eventId'', PStr ''evt1'')] None
     \<lparr>idempotency_cache = Redis False [(generate_key (\<lambda>s. s) ''delete_event'' (PDict [(''calendarId'', PStr ''cal1''), (''eventId'', PStr ''evt1'')]) None, (create_success_response ''Event deleted successfully'' (PDict [(''deleted'', PBool True)]), 300))],
      adapter_calls = [], initialized = False\<rparr>)
   = [PDict [(''success'', PBool False)]]
   \<and> adapter_calls (snd (enqueue_tool_call (\<lambda>s. s) (\<lambda>n m a. Inr (PDict [(''success'', PBool False)])) 10 ''delete_event''
     [(''calendarId'', PStr ''cal1''), (''eventId'', PStr ''evt1'')] None
     \<lparr>idempotency_cache = Redis False [(generate_key (\<lambda>s. s) ''delete_event'' (PDict [(''calendarId'', PStr ''cal1''), (''eventId'', PStr ''evt1'')]) None, (create_success_response ''Event deleted successfully'' (PDict [(''deleted'', PBool True)]), 300))],
      adapter_calls = [], initialized = False\<rparr>))
   = [(''delete_event'',
       [(''calendarId'', PStr ''cal1''), (''eventId'', PStr ''evt1''), (''sendUpdates'', PStr ''all'')])]"
proof -
  have v: "validate_tool_args ''delete_event'' [(''calendarId'', PStr ''cal1''), (''eventId'', PStr ''evt1'')]
             = Inr [(''calendarId'', PStr ''cal1''), (''eventId'', PStr ''evt1''), (''sendUpdates'', PStr ''all'')]"
    by (simp add: validate_tool_args_def SCHEMA_MAP_def DeleteEventSchema_def required_def optional_def
        t_str_def t_optional_def)
  show ?thesis
    by (simp add: enqueue_tool_call_def v cache_get_unreachable process_job_def Let_def)
qed

text \<open>
  C7, as the code has it. For a tool call that passes validation and whose idempotency
  key has a stored truthy result \<open>r\<close> in a store that can be reached, either an entry of
  the in-process mock client (whose entries never expire) or an entry of a reachable
  Redis server whose expiry instant lies after the time of the call, the router returns
  \<open>[r]\<close> and invokes no adapter method; the cache is left as it was. (Every result the
  router stores is truthy: it stores only \<^verbatim>\<open>if result:\<close>.)
\<close>

theorem stored_unexpired_entry_returned:
  "validate_tool_args tool_name arguments = Inr validated \<Longrightarrow> truthy r \<Longrightarrow>
   (idempotency_cache st = MockRedisClient data
      \<and> map_of data (generate_key h tool_name (PDict arguments) user_id) = Some r)
   \<or> (idempotency_cache st = Redis True entries
      \<and> map_of entries (generate_key h tool_name (PDict arguments) user_id) = Some (r, expiry)
      \<and> now < expiry) \<Longrightarrow>
   enqueue_tool_call h adapter now tool_name arguments user_id st = ([r], st\<lparr>initialized := True\<rparr>)
   \<and> adapter_calls (snd (enqueue_tool_call h adapter now tool_name arguments user_id st)) = adapter_calls st"
proof -
  assume v: "validate_tool_args tool_name arguments = Inr validated" and t: "truthy r"
    and stored: "(idempotency_cache st = MockRedisClient data
      \<and> map_of data (generate_key h tool_name (PDict arguments) user_id) = Some r)
   \<or> (idempotency_cache st = Redis True entries
      \<and> map_of entries (generate_key h tool_name (PDict arguments) user_id) = Some (r, expiry)
      \<and> now < expiry)"
  have "cache_get (idempotency_cache st) now (generate_key h tool_name (PDict arguments) user_id) = Some r"
    using stored by (auto simp: cache_get_mock cache_get_unexpired)
  then show ?thesis
    using v t by (simp add: enqueue_tool_call_def Let_def)
qed

theorem stored_unexpired_entry_returned_witness:
  "enqueue_tool_call (\<lambda>s. s) (\<lambda>n m a. Inr PNone) 10 ''delete_event''
     [(''calendarId'', PStr ''cal1''), (''eventId'', PStr ''evt1'')] None
     \<lparr>idempotency_cache = Redis True [(generate_key (\<lambda>s. s) ''delete_event'' (PDict [(''calendarId'', PStr ''cal1''), (''eventId'', PStr ''evt1'')]) None, (create_success_response ''Event deleted successfully'' (PDict [(''deleted'', PBool True)]), 300))],
      adapter_calls = [], initialized = False\<rparr>
   = ([create_success_response ''Event deleted successfully'' (PDict [(''deleted'', PBool True)])],
      \<lparr>idempotency_cache = Redis True [(generate_key (\<lambda>s. s) ''delete_event'' (PDict [(''calendarId'', PStr ''cal1''), (''eventId'', PStr ''evt1'')]) None, (create_success_response ''Event deleted successfully'' (PDict [(''deleted'', PBool True)]), 300))],
      adapter_calls = [], initialized = True\<rparr>)
   \<and> adapter_calls (snd (enqueue_tool_call (\<lambda>s. s) (\<lambda>n m a. Inr PNone) 10 ''delete_event''
     [(''calendarId'', PStr ''cal1''), (''eventId'', PStr ''evt1'')] None
     \<lparr>idempotency_cache = Redis True [(generate_key (\<lambda>s. s) ''delete_event'' (PDict [(''calendarId'', PStr ''cal1''), (''eventId'', PStr ''evt1'')]) None, (create_success_response ''Event deleted successfully'' (PDict [(''deleted'', PBool True)]), 300))],
      adapter_calls = [], initialized = False\<rparr>)) = []"
proof -
  let ?st = "\<lparr>idempotency_cache = Redis True [(generate_key (\<lambda>s. s) ''delete_event'' (PDict [(''calendarId'', PStr ''cal1''), (''eventId'', PStr ''evt1'')]) None, (create_success_response ''Event deleted successfully'' (PDict [(''deleted'', PBool True)]), 300))],
      adapter_calls = [], initialized = False\<rparr>"
  have v: "validate_tool_args ''delete_event'' [(''calendarId'', PStr ''cal1''), (''eventId'', PStr ''evt1'')]
             = Inr [(''calendarId'', PStr ''cal1''), (''eventId'', PStr ''evt1''), (''sendUpdates'', PStr ''all'')]"
    by (simp add: validate_tool_args_def SCHEMA_MAP_def DeleteEventSchema_def required_def optional_def
        t_str_def t_optional_def)
  have t: "truthy (create_success_response ''Event deleted successfully'' (PDict [(''deleted'', PBool True)]))"
    by (simp add: create_success_response_def)
  have stored: "(idempotency_cache ?st = MockRedisClient []
      \<and> map_of [] (generate_key (\<lambda>s. s) ''delete_event'' (PDict [(''calendarId'', PStr ''cal1''), (''eventId'', PStr ''evt1'')]) None) = Some (create_success_response ''Event deleted successfully'' (PDict [(''deleted'', PBool True)])))
   \<or> (idempotency_cache ?st = Redis True [(generate_key (\<lambda>s. s) ''delete_event'' (PDict [(''calendarId'', PStr ''cal1''), (''eventId'', PStr ''evt1'')]) None, (create_success_response ''Event deleted successfully'' (PDict [(''deleted'', PBool True)]), 300))]
      \<and> map_of [(generate_key (\<lambda>s. s) ''delete_event'' (PDict [(''calendarId'', PStr ''cal1''), (''eventId'', PStr ''evt1'')]) None, (create_success_response ''Event deleted successfully'' (PDict [(''deleted'', PBool True)]), 300))] (generate_key (\<lambda>s. s) ''delete_event'' (PDict [(''calendarId'', PStr ''cal1''), (''eventId'', PStr ''evt1'')]) None) = Some (create_success_response ''Event deleted successfully'' (PDict [(''deleted'', PBool True)]), 300)
      \<and> (10 :: real) < 300)"
    by simp
  from stored_unexpired_entry_returned [OF v t stored, of "\<lambda>n m a. Inr PNone"] show ?thesis
    by simp
qed

lemma map_of_dict_set: "map_of (dict_set k v d) k = Some v"
  by (induction d) auto

lemma cache_set_then_get:
  "client = MockRedisClient data \<or> (client = Redis True entries \<and> now' < now + 300) \<Longrightarrow>
   cache_get (snd (cache_set client now key result None)) now' key = Some (json_roundtrip result)"
  by (auto simp: cache_set_def cache_get_def redis_setex_def redis_get_def default_ttl_def
      map_of_dict_set Let_def)

lemma validated_tool_known:
  "validate_tool_args tool_name arguments = Inr validated \<Longrightarrow>
   tool_name \<in> set [''create_event'', ''update_event'', ''delete_event'', ''freebusy_query'']"
  by (auto simp: validate_tool_args_def SCHEMA_MAP_def split: if_splits option.splits)

text \<open>
  The whole round: a call that misses the cache is dispatched once and its result stored;
  a second call with the same operation, arguments and caller, made while the entry is
  live, is answered from the cache with the stored result and invokes no adapter method.
\<close>

lemma second_call_served_from_cache:
  assumes v: "validate_tool_args tool_name arguments = Inr validated"
    and miss: "cache_get (idempotency_cache st) now (generate_key h tool_name (PDict arguments) user_id) = None"
    and res: "adapter (length (adapter_calls st)) tool_name validated = Inr (PDict items)" "items \<noteq> []"
    and client: "idempotency_cache st = MockRedisClient data
                 \<or> (idempotency_cache st = Redis True entries \<and> now' < now + 300)"
    and first: "enqueue_tool_call h adapter now tool_name arguments user_id st = (out, st1)"
  shows "out = [PDict items]"
    and "adapter_calls st1 = adapter_calls st @ [(tool_name, validated)]"
    and "enqueue_tool_call h adapter' now' tool_name arguments user_id st1
           = ([json_roundtrip (PDict items)], st1)"
proof -
  let ?key = "generate_key h tool_name (PDict arguments) user_id"
  have known: "tool_name \<in> set [''create_event'', ''update_event'', ''delete_event'', ''freebusy_query'']"
    using v by (rule validated_tool_known)
  have pj: "process_job adapter tool_name validated (st\<lparr>initialized := True\<rparr>)
      = (PDict items, st\<lparr>initialized := True, adapter_calls := adapter_calls st @ [(tool_name, validated)]\<rparr>)"
    using known res by (simp add: process_job_def)
  have st1: "st1 = st\<lparr>initialized := True, adapter_calls := adapter_calls st @ [(tool_name, validated)],
       idempotency_cache := snd (cache_set (idempotency_cache st) now ?key (PDict items) None)\<rparr>"
    and out: "out = [PDict items]"
    using first v miss pj res(2) by (auto simp: enqueue_tool_call_def Let_def)
  show "out = [PDict items]" by (rule out)
  show "adapter_calls st1 = adapter_calls st @ [(tool_name, validated)]" by (simp add: st1)
  have hit: "cache_get (idempotency_cache st1) now' ?key = Some (json_roundtrip (PDict items))"
    using cache_set_then_get [OF client] by (simp add: st1)
  have "truthy (json_roundtrip (PDict items))" using res(2) by simp
  then show "enqueue_tool_call h adapter' now' tool_name arguments user_id st1
           = ([json_roundtrip (PDict items)], st1)"
    using v hit by (simp add: enqueue_tool_call_def Let_def st1)
qed

end
